theory Spec2Isabelle
  imports Complex_Main
begin

section \<open>Geodesy helpers of the alert view\<close>

text \<open>
  The alert view computes distance and bearing on JavaScript numbers. The model reads
  them as real numbers: \<open>Math.sin\<close>, \<open>Math.cos\<close>, \<open>Math.sqrt\<close> and \<open>Math.PI\<close> are the
  functions of analysis, and the only number that is falsy (\<open>!x\<close>) is \<open>0\<close>.
\<close>

definition js_falsy :: "real \<Rightarrow> bool" where
  "js_falsy x = (x = 0)"

text \<open>\<open>Math.atan2(y, x)\<close>: the angle of the point \<open>(x, y)\<close>, in \<open>(-pi, pi]\<close>, and 0 at the origin.\<close>

definition Math_atan2 :: "real \<Rightarrow> real \<Rightarrow> real" where
  "Math_atan2 y x =
     (if 0 < x then arctan (y / x)
      else if x < 0 then (if 0 \<le> y then arctan (y / x) + pi else arctan (y / x) - pi)
      else if 0 < y then pi / 2
      else if y < 0 then - (pi / 2)
      else 0)"

text \<open>\<open>Math.round\<close> rounds to the nearest integer, a tie going towards plus infinity.\<close>

definition Math_round :: "real \<Rightarrow> int" where
  "Math_round x = \<lfloor>x + 1 / 2\<rfloor>"

text \<open>The \<open>%\<close> operator truncates: the remainder takes the sign of the dividend.\<close>

definition js_rem :: "int \<Rightarrow> int \<Rightarrow> int" where
  "js_rem a b = sgn a * (\<bar>a\<bar> mod \<bar>b\<bar>)"

definition js_fmod :: "real \<Rightarrow> real \<Rightarrow> real" where
  "js_fmod x y = x - y * of_int (if 0 \<le> x / y then \<lfloor>x / y\<rfloor> else \<lceil>x / y\<rceil>)"

text \<open>Reading an array outside its bounds gives \<open>undefined\<close>, here \<open>None\<close>.\<close>

definition array_get :: "'a list \<Rightarrow> int \<Rightarrow> 'a option" where
  "array_get xs i = (if 0 \<le> i \<and> i < int (length xs) then Some (xs ! nat i) else None)"

text \<open>
  \<open>calculateDistance\<close> is a guard followed by the haversine formula on a sphere of radius
  6371000 m; \<open>haversine\<close> names the formula after the guard.
\<close>

definition haversine :: "real \<Rightarrow> real \<Rightarrow> real \<Rightarrow> real \<Rightarrow> real" where
  "haversine lat1 lon1 lat2 lon2 =
     (let R = 6371000;
          dLat = ((lat2 - lat1) * pi) / 180;
          dLon = ((lon2 - lon1) * pi) / 180;
          a = sin (dLat / 2) * sin (dLat / 2) +
              cos ((lat1 * pi) / 180) * cos ((lat2 * pi) / 180) *
              sin (dLon / 2) * sin (dLon / 2);
          c = 2 * Math_atan2 (sqrt a) (sqrt (1 - a))
      in R * c)"

definition calculateDistance :: "real \<Rightarrow> real \<Rightarrow> real \<Rightarrow> real \<Rightarrow> real" where
  "calculateDistance lat1 lon1 lat2 lon2 =
     (if js_falsy lat1 \<or> js_falsy lon1 \<or> js_falsy lat2 \<or> js_falsy lon2 then 0
      else haversine lat1 lon1 lat2 lon2)"

definition calculateBearing :: "real \<Rightarrow> real \<Rightarrow> real \<Rightarrow> real \<Rightarrow> real" where
  "calculateBearing lat1 lon1 lat2 lon2 =
     (if js_falsy lat1 \<or> js_falsy lon1 \<or> js_falsy lat2 \<or> js_falsy lon2 then 0
      else
        let dLon = ((lon2 - lon1) * pi) / 180;
            lat1Rad = (lat1 * pi) / 180;
            lat2Rad = (lat2 * pi) / 180;
            x = sin dLon * cos lat2Rad;
            y = cos lat1Rad * sin lat2Rad - sin lat1Rad * cos lat2Rad * cos dLon;
            bearing = Math_atan2 x y * (180 / pi)
        in js_fmod (bearing + 360) 360)"

definition directions :: "string list" where
  "directions = [''N'', ''NE'', ''E'', ''SE'', ''S'', ''SW'', ''W'', ''NW'']"

text \<open>\<open>getDirectionText\<close> of the alert view guards its argument with \<open>bearing || 0\<close>.\<close>

definition getDirectionText :: "real \<Rightarrow> string option" where
  "getDirectionText bearing =
     (let index = js_rem (Math_round ((if js_falsy bearing then 0 else bearing) / 45)) 8
      in array_get directions index)"

text \<open>\<open>getDirectionText\<close> of the alert card divides the bearing as it is.\<close>

definition getDirectionText_card :: "real \<Rightarrow> string option" where
  "getDirectionText_card bearing =
     (let index = js_rem (Math_round (bearing / 45)) 8
      in array_get directions index)"

text \<open>
  The rounding rule the specification names, written from its words: the nearest integer,
  a tie going away from zero.
\<close>

definition round_half_away :: "real \<Rightarrow> int" where
  "round_half_away x = (if 0 \<le> x then \<lfloor>x + 1 / 2\<rfloor> else - \<lfloor>- x + 1 / 2\<rfloor>)"


section \<open>The realtime channel\<close>

text \<open>
  \<open>SocketService\<close> wraps one Socket.IO client socket. A room is joined by a message the
  client emits (\<open>join_device_room\<close>, \<open>subscribe_alert\<close>); the server keeps the membership
  for the connection that sent it and forgets it when that connection closes. A message
  emitted while the socket is not connected waits in the socket's send buffer and goes
  out when the connection is up. \<open>sent\<close> is the log of the join messages that went out.
\<close>

datatype room = DeviceRoom string | AlertRoom string

record io_socket =
  connected :: bool
  rooms :: "room set"
  sendBuffer :: "room list"
  sent :: "room list"

record socket_service =
  socket :: "io_socket option"
  deviceId :: "string option"
  reconnectAttempts :: nat

definition new_service :: socket_service where
  "new_service = \<lparr>socket = None, deviceId = None, reconnectAttempts = 0\<rparr>"

definition emit_join :: "room \<Rightarrow> io_socket \<Rightarrow> io_socket" where
  "emit_join r so =
     (if connected so then so\<lparr>rooms := insert r (rooms so), sent := sent so @ [r]\<rparr>
      else so\<lparr>sendBuffer := sendBuffer so @ [r]\<rparr>)"

definition joinDeviceRoom :: "socket_service \<Rightarrow> socket_service" where
  "joinDeviceRoom svc =
     (case (socket svc, deviceId svc) of
        (Some so, Some d) \<Rightarrow> svc\<lparr>socket := Some (emit_join (DeviceRoom d) so)\<rparr>
      | _ \<Rightarrow> svc)"

definition subscribeToAlert :: "string \<Rightarrow> socket_service \<Rightarrow> socket_service" where
  "subscribeToAlert alertId svc =
     (case socket svc of
        Some so \<Rightarrow> svc\<lparr>socket := Some (emit_join (AlertRoom alertId) so)\<rparr>
      | None \<Rightarrow> svc)"

text \<open>
  \<open>connect\<close>: nothing to do for a connected socket of the same device; otherwise the old
  socket is disconnected and a new one is created, which connects in the background.
\<close>

definition connect :: "string \<Rightarrow> socket_service \<Rightarrow> socket_service" where
  "connect d svc =
     (if (case socket svc of Some so \<Rightarrow> connected so | None \<Rightarrow> False) \<and> deviceId svc = Some d
      then svc
      else svc\<lparr>deviceId := Some d,
               socket := Some \<lparr>connected = False, rooms = {}, sendBuffer = [], sent = []\<rparr>\<rparr>)"

definition disconnect :: "socket_service \<Rightarrow> socket_service" where
  "disconnect svc = svc\<lparr>socket := None\<rparr>"

text \<open>The listeners that \<open>connect\<close> registers on the socket.\<close>

definition on_connect :: "socket_service \<Rightarrow> socket_service" where
  "on_connect svc = joinDeviceRoom (svc\<lparr>reconnectAttempts := 0\<rparr>)"

text \<open>
  On \<open>disconnect\<close> the listener asks the socket to connect again for two of the reasons;
  the attempt changes nothing until the connection is up.
\<close>

definition on_disconnect :: "string \<Rightarrow> socket_service \<Rightarrow> socket_service" where
  "on_disconnect reason svc =
     (if reason = ''io server disconnect'' \<or> reason = ''transport close'' then svc else svc)"

definition on_connect_error :: "socket_service \<Rightarrow> socket_service" where
  "on_connect_error svc = svc\<lparr>reconnectAttempts := reconnectAttempts svc + 1\<rparr>"

definition on_reconnect :: "socket_service \<Rightarrow> socket_service" where
  "on_reconnect svc = joinDeviceRoom svc"

text \<open>
  The transport: when the connection is up the socket is connected, its send buffer goes
  out, and the \<open>connect\<close> listener runs; when it is lost the socket is disconnected, the
  server has dropped the rooms of the connection, and the \<open>disconnect\<close> listener runs. A
  reconnection is the connection coming up again: the client library of the named import
  \<open>io\<close> announces \<open>reconnect\<close> on its manager and not on the socket, so the socket's
  \<open>reconnect\<close> listener is registered but does not run.
\<close>

definition transport_up :: "socket_service \<Rightarrow> socket_service" where
  "transport_up svc =
     (case socket svc of
        None \<Rightarrow> svc
      | Some so \<Rightarrow>
          on_connect (svc\<lparr>socket :=
            Some (so\<lparr>connected := True, rooms := rooms so \<union> set (sendBuffer so),
                      sent := sent so @ sendBuffer so, sendBuffer := []\<rparr>)\<rparr>))"

definition transport_down :: "string \<Rightarrow> socket_service \<Rightarrow> socket_service" where
  "transport_down reason svc =
     (case socket svc of
        None \<Rightarrow> svc
      | Some so \<Rightarrow> on_disconnect reason (svc\<lparr>socket := Some (so\<lparr>connected := False, rooms := {}\<rparr>)\<rparr>))"

definition reconnected :: "socket_service \<Rightarrow> socket_service" where
  "reconnected svc = transport_up svc"

definition joined_rooms :: "socket_service \<Rightarrow> room set" where
  "joined_rooms svc = (case socket svc of None \<Rightarrow> {} | Some so \<Rightarrow> rooms so)"

definition sent_messages :: "socket_service \<Rightarrow> room list" where
  "sent_messages svc = (case socket svc of None \<Rightarrow> [] | Some so \<Rightarrow> sent so)"

fun subscribe_all :: "string list \<Rightarrow> socket_service \<Rightarrow> socket_service" where
  "subscribe_all [] svc = svc"
| "subscribe_all (a # as) svc = subscribe_all as (subscribeToAlert a svc)"

section \<open>The emergency sound\<close>

text \<open>
  The module keeps \<open>isPlaying\<close>, \<open>isInitialized\<close> and \<open>soundObject\<close>. The model adds what
  the module asks of the platform: the number of calls of \<open>Vibration.vibrate\<close>, the
  number of runs of \<open>playEmergencySoundAsync\<close> that wait for the sound to be created, the
  number of cleanup timers that are armed, and the number of sounds created so far (the
  handle of the next one).
\<close>

record sound_state =
  isPlaying :: bool
  isInitialized :: bool
  soundObject :: "nat option"
  vibrations :: nat
  loading :: nat
  timers :: nat
  created :: nat

definition sound_init :: sound_state where
  "sound_init = \<lparr>isPlaying = False, isInitialized = False, soundObject = None,
                  vibrations = 0, loading = 0, timers = 0, created = 0\<rparr>"

text \<open>
  \<open>playEmergencySoundAsync\<close> up to its first suspension: it returns at once when
  \<open>isPlaying\<close> is set, and otherwise sets it and waits for the audio mode, the unloading
  of the previous sound and the creation of the new one.
\<close>

definition playEmergencySoundAsync :: "sound_state \<Rightarrow> sound_state" where
  "playEmergencySoundAsync s =
     (if isPlaying s then s else s\<lparr>isPlaying := True, loading := loading s + 1\<rparr>)"

text \<open>\<open>playAlertBurst\<close>: on the web it does nothing; elsewhere it vibrates, then plays.\<close>

definition playAlertBurst :: "bool \<Rightarrow> sound_state \<Rightarrow> sound_state" where
  "playAlertBurst web s =
     (if web then s else playEmergencySoundAsync (s\<lparr>vibrations := vibrations s + 1\<rparr>))"

text \<open>
  The rest of \<open>playEmergencySoundAsync\<close>, once \<open>createAsync\<close> has resolved: the sound is
  kept and the 4000 ms cleanup timer is armed. \<open>init_ok\<close> tells whether the audio mode
  could be set.
\<close>

definition sound_created :: "bool \<Rightarrow> sound_state \<Rightarrow> sound_state" where
  "sound_created init_ok s =
     (if loading s = 0 then s
      else s\<lparr>loading := loading s - 1,
             isInitialized := (isInitialized s \<or> init_ok),
             soundObject := Some (created s),
             created := created s + 1,
             timers := timers s + 1\<rparr>)"

text \<open>
  The \<open>catch\<close> branch: creating the sound failed. The audio mode was awaited before, and
  the previous sound was unloaded and forgotten.
\<close>

definition sound_failed :: "bool \<Rightarrow> sound_state \<Rightarrow> sound_state" where
  "sound_failed init_ok s =
     (if loading s = 0 then s
      else s\<lparr>loading := loading s - 1,
             isInitialized := (isInitialized s \<or> init_ok),
             soundObject := None,
             isPlaying := False\<rparr>)"

text \<open>
  The cleanup timer fires, 4000 ms after it was armed. The sound is forgotten when
  stopping and unloading it succeed (\<open>cleanup_ok\<close>); when one of them fails the error is
  ignored and the sound stays; \<open>isPlaying\<close> is cleared in both cases.
\<close>

definition cleanup_timer :: "bool \<Rightarrow> sound_state \<Rightarrow> sound_state" where
  "cleanup_timer cleanup_ok s =
     (if timers s = 0 then s
      else s\<lparr>timers := timers s - 1,
             soundObject := (if cleanup_ok then None else soundObject s),
             isPlaying := False\<rparr>)"

definition stopEmergencyAlert :: "sound_state \<Rightarrow> sound_state" where
  "stopEmergencyAlert s = s\<lparr>isPlaying := False, soundObject := None\<rparr>"

text \<open>
  What happens to the module, one event after the other: a call of \<open>playAlertBurst\<close>,
  the creation of a sound succeeding or failing, a cleanup timer firing, a call of
  \<open>stopEmergencyAlert\<close>.
\<close>

datatype sound_event = Burst | Created bool | Failed bool | Timer bool | Stop

fun sound_step :: "bool \<Rightarrow> sound_event \<Rightarrow> sound_state \<Rightarrow> sound_state" where
  "sound_step web Burst s = playAlertBurst web s"
| "sound_step web (Created init_ok) s = sound_created init_ok s"
| "sound_step web (Failed init_ok) s = sound_failed init_ok s"
| "sound_step web (Timer cleanup_ok) s = cleanup_timer cleanup_ok s"
| "sound_step web Stop s = stopEmergencyAlert s"

fun sound_run :: "bool \<Rightarrow> sound_event list \<Rightarrow> sound_state \<Rightarrow> sound_state" where
  "sound_run web [] s = s"
| "sound_run web (e # es) s = sound_run web es (sound_step web e s)"

text \<open>
  A sound is in flight while it is being created or waits for its cleanup timer;
  \<open>one_sound\<close> says that at most one is, and that \<open>isPlaying\<close> is set exactly when one is.
\<close>

definition one_sound :: "sound_state \<Rightarrow> bool" where
  "one_sound s = (loading s + timers s \<le> 1 \<and> isPlaying s = (loading s + timers s = 1))"


section \<open>The home screen: own alert, cooldown and incoming alert\<close>

text \<open>
  The types of the alert store: a \<open>MyAlert\<close> is an identity with coordinates, an \<open>Alert\<close>
  adds what the banner and the cards show. Times are milliseconds as \<open>Date.now\<close> gives
  them; the cooldown counts seconds.
\<close>

record coords =
  latitude :: real
  longitude :: real

record location = coords +
  heading :: "real option"

record my_alert = coords +
  alert_id :: string

record alert = my_alert +
  distance :: real
  bearing :: real
  timestamp :: string
  current_radius :: real
  responder_count :: int

text \<open>
  The state a handler of the home screen reads and writes: the component's own state
  (\<open>isProcessing\<close>, \<open>incomingAlert\<close>, \<open>currentAddress\<close>, \<open>alertStartTime\<close>,
  \<open>alertTimeRemaining\<close>) and the fields of the store. A handler is a closure of the render
  that created it: it reads the values of that render and writes to the current state.
  \<open>handleEmergencyPress\<close>, the cooldown timer and the countdown are created again whenever
  a value they read changes (their dependency lists name it), so they run on the state
  they read. The listener of \<open>alert_ended\<close> and the periodic update are created by effects
  whose dependency lists omit values they read; they take the render that created them
  as the argument \<open>seen\<close>.
\<close>

record home_state =
  isProcessing :: bool
  incomingAlert :: "alert option"
  currentAddress :: string
  alertStartTime :: "int option"
  alertTimeRemaining :: int
  myActiveAlert :: "my_alert option"
  nearbyAlerts :: "alert list"
  selectedAlert :: "alert option"
  canTrigger :: bool
  cooldownRemaining :: int
  error :: "string option"

definition home_init :: home_state where
  "home_init = \<lparr>isProcessing = False, incomingAlert = None, currentAddress = [],
                 alertStartTime = None, alertTimeRemaining = 0, myActiveAlert = None,
                 nearbyAlerts = [], selectedAlert = None, canTrigger = True,
                 cooldownRemaining = 0, error = None\<rparr>"

text \<open>\<open>reset\<close> of the store.\<close>

definition reset :: "home_state \<Rightarrow> home_state" where
  "reset s = s\<lparr>myActiveAlert := None, nearbyAlerts := [], selectedAlert := None,
               canTrigger := True, cooldownRemaining := 0, error := None\<rparr>"

definition ALERT_DURATION :: int where
  "ALERT_DURATION = 1200"

subsection \<open>Incoming alerts\<close>

text \<open>The payload of \<open>alert_received\<close>; \<open>bearing\<close> and \<open>current_radius\<close> may be missing.\<close>

record alert_received_data =
  data_alert_id :: string
  data_latitude :: real
  data_longitude :: real
  data_distance :: real
  data_bearing :: "real option"
  data_timestamp :: string
  data_current_radius :: "real option"

text \<open>\<open>v || d\<close> on a number that may be missing.\<close>

definition or_default :: "real option \<Rightarrow> real \<Rightarrow> real" where
  "or_default v d = (case v of None \<Rightarrow> d | Some x \<Rightarrow> if js_falsy x then d else x)"

definition alert_of_data :: "alert_received_data \<Rightarrow> alert" where
  "alert_of_data d =
     \<lparr>latitude = data_latitude d, longitude = data_longitude d, alert_id = data_alert_id d,
      distance = data_distance d, bearing = or_default (data_bearing d) 0,
      timestamp = data_timestamp d, current_radius = or_default (data_current_radius d) 300,
      responder_count = 0\<rparr>"

text \<open>The listener of \<open>alert_received\<close>: it shows the banner for the alert it is given.\<close>

definition onAlertReceived :: "alert_received_data \<Rightarrow> home_state \<Rightarrow> home_state" where
  "onAlertReceived d s = s\<lparr>incomingAlert := Some (alert_of_data d)\<rparr>"

text \<open>
  The end of the periodic update: the nearby alerts of the response are stored, and the
  first of them is shown when the render that created the update had no alert of its
  own and showed none. The effect is created again when \<open>deviceId\<close>, \<open>hasPermission\<close>,
  \<open>myActiveAlert\<close> or \<open>currentAddress\<close> change, not when \<open>incomingAlert\<close> does.
\<close>

definition updateAndFetchData_alerts :: "home_state \<Rightarrow> alert list \<Rightarrow> home_state \<Rightarrow> home_state" where
  "updateAndFetchData_alerts seen alerts s =
     (let s1 = s\<lparr>nearbyAlerts := alerts\<rparr>
      in case alerts of
           [] \<Rightarrow> s1
         | a # _ \<Rightarrow>
             if myActiveAlert seen = None \<and> incomingAlert seen = None
             then s1\<lparr>incomingAlert := Some a\<rparr> else s1)"

definition handleDismissAlert :: "home_state \<Rightarrow> home_state" where
  "handleDismissAlert s = s\<lparr>incomingAlert := None\<rparr>"

subsection \<open>The end of an alert, signalled by the server\<close>

record alert_ended_data =
  ended_alert_id :: string
  reason :: string

text \<open>
  The listener of \<open>alert_ended\<close>. It is registered by the effect that sets the device up,
  which runs again only when \<open>deviceId\<close> or \<open>expoPushToken\<close> change. Its three steps read
  \<open>myActiveAlert\<close>, \<open>incomingAlert\<close> and \<open>nearbyAlerts\<close> of the render \<open>seen\<close> that registered
  it and write to the current state; the last step writes the filtered list of that
  render. The dialog for the reason \<open>user_safe\<close> is not state.
\<close>

definition onAlertEnded :: "home_state \<Rightarrow> alert_ended_data \<Rightarrow> home_state \<Rightarrow> home_state" where
  "onAlertEnded seen d s =
     (let s1 = (if map_option alert_id (myActiveAlert seen) = Some (ended_alert_id d)
                then reset (s\<lparr>myActiveAlert := None, currentAddress := []\<rparr>) else s);
          s2 = (if map_option alert_id (incomingAlert seen) = Some (ended_alert_id d)
                then s1\<lparr>incomingAlert := None\<rparr> else s1)
      in s2\<lparr>nearbyAlerts := filter (\<lambda>a. alert_id a \<noteq> ended_alert_id d) (nearbyAlerts seen)\<rparr>)"

subsection \<open>The cooldown and the countdown of the own alert\<close>

text \<open>
  One tick of the cooldown timer, a second after the effect ran; the effect sets no timer
  when the cooldown is not positive.
\<close>

definition cooldown_tick :: "home_state \<Rightarrow> home_state" where
  "cooldown_tick s =
     (if cooldownRemaining s \<le> 0 then s
      else
        let s1 = s\<lparr>cooldownRemaining := max 0 (cooldownRemaining s - 1)\<rparr>
        in if cooldownRemaining s \<le> 1 then s1\<lparr>canTrigger := True\<rparr> else s1)"

text \<open>A start time is falsy when it is missing or 0.\<close>

definition start_time :: "home_state \<Rightarrow> int option" where
  "start_time s = (case alertStartTime s of Some t \<Rightarrow> if t = 0 then None else Some t | None \<Rightarrow> None)"

text \<open>
  The countdown of the own alert at the time \<open>now\<close>: without an alert or a start time the
  effect sets the remaining time to 0 and no timer; otherwise the tick computes the
  remaining seconds and, when none remain, clears the local state.
\<close>

definition alert_countdown :: "int \<Rightarrow> home_state \<Rightarrow> home_state" where
  "alert_countdown now s =
     (case (myActiveAlert s, start_time s) of
        (Some a, Some t) \<Rightarrow>
          let elapsed = (now - t) div 1000;
              remaining = max 0 (ALERT_DURATION - elapsed);
              s1 = s\<lparr>alertTimeRemaining := remaining\<rparr>
          in if remaining \<le> 0
             then reset (s1\<lparr>myActiveAlert := None, alertStartTime := None, currentAddress := []\<rparr>)
             else s1
      | _ \<Rightarrow> s\<lparr>alertTimeRemaining := 0\<rparr>)"

text \<open>
  The timer set at the time \<open>t0\<close> ticks at \<open>t0 + 1000\<close>, \<open>t0 + 2000\<close>, ...;
  \<open>alert_ticks t0 k\<close> runs its first \<open>k\<close> ticks.
\<close>

fun alert_ticks :: "int \<Rightarrow> nat \<Rightarrow> home_state \<Rightarrow> home_state" where
  "alert_ticks t0 0 s = s"
| "alert_ticks t0 (Suc k) s = alert_countdown (t0 + 1000 * (int k + 1)) (alert_ticks t0 k s)"

subsection \<open>The emergency button\<close>

text \<open>
  What \<open>handleEmergencyPress\<close> meets outside the state: the location permission, the
  answer of \<open>getCurrentLocation\<close> (\<open>None\<close> for \<open>null\<close>), the address found for it, the
  answer of \<open>triggerAlert\<close> (\<open>None\<close> when the request throws, otherwise the identity the
  server gave the alert) and the clock.
\<close>

record press_env =
  hasPermission :: bool
  current_location :: "location option"
  address :: string
  response :: "string option"
  clock :: int

text \<open>
  How a press ends: the handler returns nothing, so the outcome is the branch it took.
  Two early returns are silent, the other refusals show a dialog.
\<close>

datatype press_outcome =
    Ignored_processing
  | Ignored_active
  | Location_required
  | Cooldown_active int
  | Location_error
  | Trigger_failed
  | Alert_sent

definition handleEmergencyPress :: "press_env \<Rightarrow> home_state \<Rightarrow> press_outcome \<times> home_state" where
  "handleEmergencyPress env s =
     (if isProcessing s then (Ignored_processing, s)
      else if myActiveAlert s \<noteq> None then (Ignored_active, s)
      else if \<not> hasPermission env then (Location_required, s)
      else if \<not> canTrigger s then (Cooldown_active (cooldownRemaining s), s)
      else
        case current_location env of
          None \<Rightarrow> (Location_error, s\<lparr>isProcessing := False\<rparr>)
        | Some loc \<Rightarrow>
            (case response env of
               None \<Rightarrow> (Trigger_failed, s\<lparr>currentAddress := address env, isProcessing := False\<rparr>)
             | Some aid \<Rightarrow>
                 (Alert_sent,
                  s\<lparr>currentAddress := address env,
                    myActiveAlert := Some \<lparr>latitude = latitude loc, longitude = longitude loc,
                                           alert_id = aid\<rparr>,
                    alertStartTime := Some (clock env),
                    canTrigger := False,
                    cooldownRemaining := 60,
                    isProcessing := False\<rparr>)))"

text \<open>The part of the state that is the lifecycle of the device's own alert.\<close>

definition own_alert_state :: "home_state \<Rightarrow> my_alert option \<times> bool \<times> int" where
  "own_alert_state s = (myActiveAlert s, canTrigger s, cooldownRemaining s)"

definition Idle :: "home_state \<Rightarrow> bool" where
  "Idle s = (myActiveAlert s = None \<and> canTrigger s \<and> cooldownRemaining s = 0)"

definition Active :: "home_state \<Rightarrow> bool" where
  "Active s = (myActiveAlert s \<noteq> None)"


subsection \<open>A scenario\<close>

text \<open>
  The device of the specification's scenario at (9.0579, 7.4951), with the permission, a
  location and a server that answers with the identity \<open>a1\<close>; the state after its first
  press; an alert of another device.
\<close>

definition demo_location :: location where
  "demo_location = \<lparr>latitude = 90579 / 10000, longitude = 74951 / 10000, heading = None\<rparr>"

definition demo_env :: press_env where
  "demo_env = \<lparr>hasPermission = True, current_location = Some demo_location,
                address = ''Abuja'', response = Some ''a1'', clock = 5000\<rparr>"

definition demo_active :: home_state where
  "demo_active = snd (handleEmergencyPress demo_env home_init)"

definition demo_ended :: alert_ended_data where
  "demo_ended = \<lparr>ended_alert_id = ''a1'', reason = ''user_safe''\<rparr>"

text \<open>Two alerts of other devices, the second closer than the first.\<close>

definition demo_far :: alert_received_data where
  "demo_far = \<lparr>data_alert_id = ''b2'', data_latitude = 9062 / 1000, data_longitude = 7495 / 1000,
                data_distance = 450, data_bearing = None, data_timestamp = ''t1'',
                data_current_radius = None\<rparr>"

definition demo_near :: alert_received_data where
  "demo_near = \<lparr>data_alert_id = ''c3'', data_latitude = 9058 / 1000, data_longitude = 7496 / 1000,
                 data_distance = 100, data_bearing = Some 90, data_timestamp = ''t2'',
                 data_current_radius = Some 600\<rparr>"

text \<open>
  A session of the channel: the device \<open>dev1\<close> connects, the connection comes up, and the
  alert view subscribes to the alerts \<open>as\<close>.
\<close>

definition session :: "string list \<Rightarrow> socket_service" where
  "session as = subscribe_all as (transport_up (connect ''dev1'' new_service))"

section \<open>Properties of the geodesy helpers\<close>

lemma sin_sq_neg: "sin (- x) * sin (- x) = sin x * sin (x::real)"
  by simp

lemma half_angle_swap: "(b - a) * pi / 180 / 2 = - ((a - b) * pi / 180 / 2)" for a b :: real
  by (simp add: field_simps)

lemma haversine_commute: "haversine lat1 lon1 lat2 lon2 = haversine lat2 lon2 lat1 lon1"
  unfolding haversine_def Let_def
    half_angle_swap[of lat2 lat1] half_angle_swap[of lon2 lon1] sin_sq_neg
  by (simp add: mult.commute)

lemma haversine_self: "haversine lat lon lat lon = 0"
  by (simp add: haversine_def Math_atan2_def)

lemma calculateDistance_commute:
  "calculateDistance lat1 lon1 lat2 lon2 = calculateDistance lat2 lon2 lat1 lon1"
  unfolding calculateDistance_def haversine_commute [of lat1 lon1 lat2 lon2]
  by (simp add: disj_ac)

lemma calculateDistance_self: "calculateDistance lat lon lat lon = 0"
  by (simp add: calculateDistance_def haversine_self)

text \<open>
  Claim C8. The distance between two coordinates does not depend on their order, and the
  distance from a coordinate to itself is 0.
\<close>

theorem calculateDistance_symmetric:
  "calculateDistance lat1 lon1 lat2 lon2 = calculateDistance lat2 lon2 lat1 lon1
   \<and> calculateDistance lat1 lon1 lat1 lon1 = 0"
  by (simp add: calculateDistance_commute [of lat1 lon1 lat2 lon2] calculateDistance_self)

theorem calculateDistance_symmetric_witness:
  "calculateDistance 9 7 10 8 = calculateDistance 10 8 9 7
   \<and> calculateDistance 9 7 9 7 = 0"
  using calculateDistance_symmetric [of 9 7 10 8] by simp

text \<open>
  Between the point of the equator at longitude 90 and the north pole the formula gives
  a quarter of a great circle.
\<close>

lemma haversine_quarter: "haversine 0 90 90 90 = 6371000 * (pi / 2)"
proof -
  have s: "sin (pi / 4) * sin (pi / 4) = (1::real) / 2"
    by (simp add: sin_45 power_divide flip: power2_eq_square)
  have q: "(90 - 0) * pi / 180 / 2 = pi / 4" by simp
  have p: "0 < sqrt (1 / 2 :: real)" by simp
  show ?thesis
    unfolding haversine_def Let_def q
    using p by (simp add: s Math_atan2_def arctan_one)
qed

text \<open>
  Claim C10. When one of the four components is 0, \<open>calculateDistance\<close> and
  \<open>calculateBearing\<close> return 0, whatever the other components are.
\<close>

theorem zero_component_gives_zero:
  "lat1 = 0 \<or> lon1 = 0 \<or> lat2 = 0 \<or> lon2 = 0 \<Longrightarrow>
     calculateDistance lat1 lon1 lat2 lon2 = 0 \<and> calculateBearing lat1 lon1 lat2 lon2 = 0"
  by (auto simp: calculateDistance_def calculateBearing_def js_falsy_def)

text \<open>
  At the equator the reported distance to the pole is 0, where the formula gives a
  quarter of a great circle; so it is for a point of the prime meridian.
\<close>

theorem zero_component_gives_zero_witness:
  "calculateDistance 0 90 90 90 = 0 \<and> calculateBearing 0 90 90 90 = 0
   \<and> haversine 0 90 90 90 = 6371000 * (pi / 2)
   \<and> calculateDistance 45 0 50 10 = 0 \<and> calculateBearing 45 0 50 10 = 0"
  using zero_component_gives_zero [of 0 90 90 90] zero_component_gives_zero [of 45 0 50 10]
    haversine_quarter
  by simp

lemma Math_round_range:
  assumes "0 \<le> b" "b < 360"
  shows "0 \<le> Math_round (b / 45) \<and> Math_round (b / 45) \<le> 8"
proof -
  have "0 \<le> b / 45 + 1 / 2" using assms by simp
  moreover have "b / 45 + 1 / 2 < 9" using assms by simp
  ultimately show ?thesis unfolding Math_round_def
    by (simp add: floor_less_iff le_floor_iff flip: less_add_one) 
qed

lemma js_rem_nonneg: "0 \<le> a \<Longrightarrow> js_rem a 8 = a mod 8"
  by (cases "a = 0") (simp_all add: js_rem_def)

lemma array_get_directions:
  "0 \<le> i \<Longrightarrow> array_get directions (i mod 8) = Some (directions ! nat (i mod 8))"
  by (simp add: array_get_def directions_def)

lemma directions_nth_mem: "n < 8 \<Longrightarrow> directions ! n \<in> set directions"
  by (rule nth_mem) (simp add: directions_def)

lemma getDirectionText_eq:
  assumes "0 \<le> b" "b < 360"
  shows "getDirectionText b = Some (directions ! nat (Math_round (b / 45) mod 8))"
  using Math_round_range[OF assms]
  by (simp add: getDirectionText_def js_falsy_def js_rem_nonneg array_get_directions)

lemma getDirectionText_card_eq:
  assumes "0 \<le> b" "b < 360"
  shows "getDirectionText_card b = Some (directions ! nat (Math_round (b / 45) mod 8))"
  using Math_round_range[OF assms]
  by (simp add: getDirectionText_card_def js_rem_nonneg array_get_directions)

lemma round_half_away_nonneg: "0 \<le> x \<Longrightarrow> round_half_away x = Math_round x"
  by (simp add: round_half_away_def Math_round_def)

lemma Math_round_boundary: "Math_round ((45 * real k + 45 / 2) / 45) = int k + 1"
proof -
  have "(45 * real k + 45 / 2) / 45 + 1 / 2 = of_int (int k + 1)"
    by (simp add: add_divide_distrib)
  then show ?thesis unfolding Math_round_def by (metis floor_of_int)
qed

text \<open>
  Claim C9. A bearing in \<open>[0, 360)\<close> is mapped to one of the eight directions, the one at
  the index \<open>round (bearing / 45) mod 8\<close> where a tie is rounded away from zero; both
  copies of \<open>getDirectionText\<close> agree; a bearing at a boundary \<open>45 k + 22.5\<close> goes to the
  next octant \<open>k + 1\<close> (modulo 8).
\<close>

theorem getDirectionText_octant:
  assumes "0 \<le> b" and "b < 360"
  shows "getDirectionText b = Some (directions ! nat (round_half_away (b / 45) mod 8))
    \<and> getDirectionText_card b = getDirectionText b
    \<and> (\<exists>d. d \<in> set directions \<and> getDirectionText b = Some d)
    \<and> (\<forall>k. b = 45 * real k + 45 / 2 \<longrightarrow>
          getDirectionText b = Some (directions ! ((k + 1) mod 8)))"
proof -
  let ?r = "Math_round (b / 45)"
  have r: "0 \<le> ?r" using Math_round_range[OF assms] by simp
  have e: "getDirectionText b = Some (directions ! nat (?r mod 8))"
    by (rule getDirectionText_eq[OF assms])
  have a: "round_half_away (b / 45) = ?r"
    using assms by (simp add: round_half_away_nonneg)
  have m: "directions ! nat (?r mod 8) \<in> set directions"
    by (rule directions_nth_mem) (simp add: nat_less_iff)
  have k: "getDirectionText b = Some (directions ! ((k + 1) mod 8))"
    if "b = 45 * real k + 45 / 2" for k
  proof -
    have "?r = int k + 1" unfolding that by (rule Math_round_boundary)
    then have "nat (?r mod 8) = (k + 1) mod 8"
      by (simp add: nat_mod_distrib nat_add_distrib)
    with e show ?thesis by simp
  qed
  show ?thesis using e a m k getDirectionText_card_eq[OF assms] by simp
qed

theorem getDirectionText_octant_witness:
  "getDirectionText (45 / 2) = Some ''NE'' \<and> getDirectionText (675 / 2) = Some ''N''
   \<and> getDirectionText_card (45 / 2) = Some ''NE'' \<and> getDirectionText_card (675 / 2) = Some ''N''"
proof -
  have lo: "(0::real) \<le> 45 / 2 \<and> (45 / 2 :: real) < 360" by simp
  have hi: "(0::real) \<le> 675 / 2 \<and> (675 / 2 :: real) < 360" by simp
  note t1 = getDirectionText_octant [of "45 / 2"]
  note t2 = getDirectionText_octant [of "675 / 2"]
  have k1: "\<forall>k. (45 / 2 :: real) = 45 * real k + 45 / 2 \<longrightarrow>
      getDirectionText (45 / 2) = Some (directions ! ((k + 1) mod 8))"
    using t1 lo by blast
  have k2: "\<forall>k. (675 / 2 :: real) = 45 * real k + 45 / 2 \<longrightarrow>
      getDirectionText (675 / 2) = Some (directions ! ((k + 1) mod 8))"
    using t2 hi by blast
  have c1: "getDirectionText_card (45 / 2) = getDirectionText (45 / 2)"
    using t1 lo by blast
  have c2: "getDirectionText_card (675 / 2) = getDirectionText (675 / 2)"
    using t2 hi by blast
  have a1: "getDirectionText (45 / 2) = Some (directions ! 1)"
    using k1 [rule_format, of 0] by simp
  have a2: "getDirectionText (675 / 2) = Some (directions ! 0)"
    using k2 [rule_format, of 7] by simp
  show ?thesis unfolding c1 c2 a1 a2 by (simp add: directions_def)
qed


section \<open>The emergency button and the end of the own alert\<close>

lemma press_refused:
  "\<not> canTrigger s \<or> myActiveAlert s \<noteq> None \<Longrightarrow>
     snd (handleEmergencyPress env s) = s \<and> fst (handleEmergencyPress env s) \<noteq> Alert_sent"
proof (cases "myActiveAlert s = None")
  case True
  assume "\<not> canTrigger s \<or> myActiveAlert s \<noteq> None"
  with True have "\<not> canTrigger s" by simp
  with True show ?thesis by (simp add: handleEmergencyPress_def)
next
  case False
  then show ?thesis by (simp add: handleEmergencyPress_def)
qed

lemma press_active:
  "\<not> isProcessing s \<Longrightarrow> myActiveAlert s \<noteq> None \<Longrightarrow>
     fst (handleEmergencyPress env s) = Ignored_active"
  by (simp add: handleEmergencyPress_def)

lemma press_cooldown:
  "\<not> isProcessing s \<Longrightarrow> myActiveAlert s = None \<Longrightarrow> hasPermission env \<Longrightarrow> \<not> canTrigger s \<Longrightarrow>
     fst (handleEmergencyPress env s) = Cooldown_active (cooldownRemaining s)"
  by (simp add: handleEmergencyPress_def)

lemma press_no_permission:
  "\<not> isProcessing s \<Longrightarrow> Idle s \<Longrightarrow> \<not> hasPermission env \<Longrightarrow>
     handleEmergencyPress env s = (Location_required, s)"
  by (simp add: handleEmergencyPress_def Idle_def)

lemma press_no_location:
  "\<not> isProcessing s \<Longrightarrow> Idle s \<Longrightarrow> hasPermission env \<Longrightarrow> current_location env = None \<Longrightarrow>
     handleEmergencyPress env s = (Location_error, s)"
  by (simp add: handleEmergencyPress_def Idle_def)

lemma press_sent:
  "\<not> isProcessing s \<Longrightarrow> Idle s \<Longrightarrow> hasPermission env \<Longrightarrow> current_location env = Some loc \<Longrightarrow>
   response env = Some aid \<Longrightarrow>
     handleEmergencyPress env s =
       (Alert_sent,
        s\<lparr>currentAddress := address env,
          myActiveAlert := Some \<lparr>latitude = latitude loc, longitude = longitude loc, alert_id = aid\<rparr>,
          alertStartTime := Some (clock env),
          canTrigger := False,
          cooldownRemaining := 60,
          isProcessing := False\<rparr>)"
  by (simp add: handleEmergencyPress_def Idle_def)

text \<open>
  Claim C3. A press while the own alert is active or while \<open>canTrigger\<close> is off (the
  cooldown) is refused and leaves the state as it is; the active alert is refused by the
  silent return, the cooldown by its dialog. From the idle state a press without the
  permission or without a location is refused too. From the idle state, with a location
  and an answer of the server, the alert is sent and the own alert is active.
\<close>

theorem handleEmergencyPress_trigger:
  "(\<not> canTrigger s \<or> myActiveAlert s \<noteq> None \<longrightarrow>
      snd (handleEmergencyPress env s) = s \<and> fst (handleEmergencyPress env s) \<noteq> Alert_sent)
   \<and> (\<not> isProcessing s \<and> myActiveAlert s \<noteq> None \<longrightarrow>
      fst (handleEmergencyPress env s) = Ignored_active)
   \<and> (\<not> isProcessing s \<and> myActiveAlert s = None \<and> hasPermission env \<and> \<not> canTrigger s \<longrightarrow>
      fst (handleEmergencyPress env s) = Cooldown_active (cooldownRemaining s))
   \<and> (\<not> isProcessing s \<and> Idle s \<and> \<not> hasPermission env \<longrightarrow>
      handleEmergencyPress env s = (Location_required, s))
   \<and> (\<not> isProcessing s \<and> Idle s \<and> hasPermission env \<and> current_location env = None \<longrightarrow>
      handleEmergencyPress env s = (Location_error, s))
   \<and> (\<not> isProcessing s \<and> Idle s \<and> hasPermission env \<and> current_location env = Some loc
        \<and> response env = Some aid \<longrightarrow>
      fst (handleEmergencyPress env s) = Alert_sent
      \<and> Active (snd (handleEmergencyPress env s))
      \<and> myActiveAlert (snd (handleEmergencyPress env s)) =
          Some \<lparr>latitude = latitude loc, longitude = longitude loc, alert_id = aid\<rparr>)"
proof (intro conjI impI)
  assume "\<not> canTrigger s \<or> myActiveAlert s \<noteq> None"
  from press_refused [OF this]
  show "snd (handleEmergencyPress env s) = s" "fst (handleEmergencyPress env s) \<noteq> Alert_sent"
    by simp_all
next
  assume "\<not> isProcessing s \<and> myActiveAlert s \<noteq> None"
  then show "fst (handleEmergencyPress env s) = Ignored_active"
    by (simp add: press_active)
next
  assume "\<not> isProcessing s \<and> myActiveAlert s = None \<and> hasPermission env \<and> \<not> canTrigger s"
  then show "fst (handleEmergencyPress env s) = Cooldown_active (cooldownRemaining s)"
    by (simp add: press_cooldown)
next
  assume "\<not> isProcessing s \<and> Idle s \<and> \<not> hasPermission env"
  then show "handleEmergencyPress env s = (Location_required, s)"
    by (simp add: press_no_permission)
next
  assume "\<not> isProcessing s \<and> Idle s \<and> hasPermission env \<and> current_location env = None"
  then show "handleEmergencyPress env s = (Location_error, s)"
    by (simp add: press_no_location)
next
  assume a: "\<not> isProcessing s \<and> Idle s \<and> hasPermission env \<and> current_location env = Some loc
        \<and> response env = Some aid"
  then have e: "handleEmergencyPress env s =
       (Alert_sent,
        s\<lparr>currentAddress := address env,
          myActiveAlert := Some \<lparr>latitude = latitude loc, longitude = longitude loc, alert_id = aid\<rparr>,
          alertStartTime := Some (clock env),
          canTrigger := False,
          cooldownRemaining := 60,
          isProcessing := False\<rparr>)"
    by (simp add: press_sent)
  show "fst (handleEmergencyPress env s) = Alert_sent" by (simp add: e)
  show "Active (snd (handleEmergencyPress env s))" by (simp add: e Active_def)
  show "myActiveAlert (snd (handleEmergencyPress env s)) =
          Some \<lparr>latitude = latitude loc, longitude = longitude loc, alert_id = aid\<rparr>"
    by (simp add: e)
qed

theorem handleEmergencyPress_trigger_witness:
  "handleEmergencyPress demo_env home_init = (Alert_sent, demo_active)
   \<and> Active demo_active
   \<and> handleEmergencyPress demo_env demo_active = (Ignored_active, demo_active)
   \<and> handleEmergencyPress demo_env (home_init\<lparr>canTrigger := False, cooldownRemaining := 42\<rparr>) =
       (Cooldown_active 42, home_init\<lparr>canTrigger := False, cooldownRemaining := 42\<rparr>)
   \<and> handleEmergencyPress (demo_env\<lparr>hasPermission := False\<rparr>) home_init =
       (Location_required, home_init)
   \<and> handleEmergencyPress (demo_env\<lparr>current_location := None\<rparr>) home_init =
       (Location_error, home_init)"
proof -
  let ?cool = "home_init\<lparr>canTrigger := False, cooldownRemaining := 42\<rparr>"
  have idle: "\<not> isProcessing home_init \<and> Idle home_init"
    by (simp add: home_init_def Idle_def)
  have env: "hasPermission demo_env \<and> current_location demo_env = Some demo_location
      \<and> response demo_env = Some ''a1''"
    by (simp add: demo_env_def)
  have sent: "fst (handleEmergencyPress demo_env home_init) = Alert_sent
      \<and> Active (snd (handleEmergencyPress demo_env home_init))"
    using handleEmergencyPress_trigger [of home_init demo_env demo_location "''a1''"] idle env
    by blast
  then have 1: "handleEmergencyPress demo_env home_init = (Alert_sent, demo_active)"
    by (simp add: demo_active_def prod_eq_iff)
  have 2: "Active demo_active"
    using sent by (simp add: demo_active_def)
  have np: "\<not> isProcessing demo_active"
    by (simp add: demo_active_def press_sent [OF _ _ _ _ _, of home_init demo_env demo_location "''a1''"]
        idle env)
  have "\<not> isProcessing demo_active \<and> myActiveAlert demo_active \<noteq> None"
    using np 2 by (simp add: Active_def)
  then have 3: "handleEmergencyPress demo_env demo_active = (Ignored_active, demo_active)"
    using handleEmergencyPress_trigger [of demo_active demo_env demo_location "''a1''"]
    by (simp add: prod_eq_iff)
  have "\<not> isProcessing ?cool \<and> myActiveAlert ?cool = None \<and> \<not> canTrigger ?cool
      \<and> cooldownRemaining ?cool = 42"
    by (simp add: home_init_def)
  then have 4: "handleEmergencyPress demo_env ?cool = (Cooldown_active 42, ?cool)"
    using handleEmergencyPress_trigger [of ?cool demo_env demo_location "''a1''"] env
    by (simp add: prod_eq_iff)
  have 5: "handleEmergencyPress (demo_env\<lparr>hasPermission := False\<rparr>) home_init =
       (Location_required, home_init)"
    using handleEmergencyPress_trigger
      [of home_init "demo_env\<lparr>hasPermission := False\<rparr>" demo_location "''a1''"] idle
    by simp
  have 6: "handleEmergencyPress (demo_env\<lparr>current_location := None\<rparr>) home_init =
       (Location_error, home_init)"
    using handleEmergencyPress_trigger
      [of home_init "demo_env\<lparr>current_location := None\<rparr>" demo_location "''a1''"] idle env
    by simp
  show ?thesis using 1 2 3 4 5 6 by blast
qed

lemma onAlertEnded_other:
  "map_option alert_id (myActiveAlert seen) \<noteq> Some (ended_alert_id d) \<Longrightarrow>
     onAlertEnded seen d s =
       s\<lparr>incomingAlert := (if map_option alert_id (incomingAlert seen) = Some (ended_alert_id d)
                              then None else incomingAlert s),
         nearbyAlerts := filter (\<lambda>a. alert_id a \<noteq> ended_alert_id d) (nearbyAlerts seen)\<rparr>"
  by (simp add: onAlertEnded_def Let_def del: map_option_eq_Some)

lemma onAlertEnded_match:
  "map_option alert_id (myActiveAlert seen) = Some (ended_alert_id d) \<Longrightarrow>
     Idle (onAlertEnded seen d s)"
  by (simp add: onAlertEnded_def Let_def reset_def Idle_def del: map_option_eq_Some)

lemma onAlertEnded_unseen:
  "myActiveAlert seen = None \<Longrightarrow>
     own_alert_state (onAlertEnded seen d s) = own_alert_state s
     \<and> nearbyAlerts (onAlertEnded seen d s) =
         filter (\<lambda>a. alert_id a \<noteq> ended_alert_id d) (nearbyAlerts seen)"
  by (simp add: onAlertEnded_other own_alert_state_def)

text \<open>
  Claim C4 fails on the code. The listener is registered by the render of the mounted
  screen, which has no alert of its own. After the press the own alert \<open>a1\<close> is active;
  an \<open>alert_ended\<close> for \<open>a1\<close> is compared with the alert of that render, none, and leaves
  the own alert state as it is: the device stays active. The list of nearby alerts is
  overwritten with that of the render. Had the listener been registered by a render
  that has the alert \<open>a1\<close>, the device would be idle.
\<close>

theorem onAlertEnded_stale_listener:
  "map_option alert_id (myActiveAlert demo_active) = Some (ended_alert_id demo_ended)
   \<and> own_alert_state (onAlertEnded home_init demo_ended demo_active) = own_alert_state demo_active
   \<and> Active (onAlertEnded home_init demo_ended demo_active)
   \<and> \<not> Idle (onAlertEnded home_init demo_ended demo_active)
   \<and> nearbyAlerts (onAlertEnded home_init demo_ended
        (demo_active\<lparr>nearbyAlerts := [alert_of_data demo_near]\<rparr>)) = []
   \<and> Idle (onAlertEnded demo_active demo_ended demo_active)"
proof -
  have a: "myActiveAlert demo_active =
      Some \<lparr>latitude = latitude demo_location, longitude = longitude demo_location,
            alert_id = ''a1''\<rparr>"
    by (simp add: demo_active_def handleEmergencyPress_def home_init_def demo_env_def)
  have m: "map_option alert_id (myActiveAlert demo_active) = Some (ended_alert_id demo_ended)"
    by (simp add: a demo_ended_def)
  have n: "myActiveAlert home_init = None" "nearbyAlerts home_init = []"
    by (simp_all add: home_init_def)
  have 1: "own_alert_state (onAlertEnded home_init demo_ended demo_active) = own_alert_state demo_active"
    using onAlertEnded_unseen [OF n(1)] by blast
  then have 2: "Active (onAlertEnded home_init demo_ended demo_active)"
    by (simp add: own_alert_state_def Active_def a)
  then have 3: "\<not> Idle (onAlertEnded home_init demo_ended demo_active)"
    by (simp add: Active_def Idle_def)
  have 4: "nearbyAlerts (onAlertEnded home_init demo_ended
        (demo_active\<lparr>nearbyAlerts := [alert_of_data demo_near]\<rparr>)) = []"
    using onAlertEnded_unseen [OF n(1), of demo_ended] by (simp add: n(2))
  have 5: "Idle (onAlertEnded demo_active demo_ended demo_active)"
    using m by (rule onAlertEnded_match)
  show ?thesis using m 1 2 3 4 5 by blast
qed

section \<open>The cooldown and the expiry of the own alert\<close>

lemma cooldown_tick_eq:
  "cooldown_tick s =
     (if cooldownRemaining s \<le> 0 then s
      else s\<lparr>cooldownRemaining := cooldownRemaining s - 1,
             canTrigger := (canTrigger s \<or> cooldownRemaining s = 1)\<rparr>)"
  by (auto simp: cooldown_tick_def Let_def max_def)

lemma cooldown_tick_fields:
  "myActiveAlert (cooldown_tick s) = myActiveAlert s"
  "alertStartTime (cooldown_tick s) = alertStartTime s"
  by (simp_all add: cooldown_tick_eq)

lemma cooldown_tick_remaining:
  "0 \<le> cooldownRemaining s \<Longrightarrow> cooldownRemaining (cooldown_tick s) = max 0 (cooldownRemaining s - 1)"
  by (simp add: cooldown_tick_eq)

lemma cooldown_tick_canTrigger:
  "canTrigger (cooldown_tick s) = (canTrigger s \<or> cooldownRemaining s = 1)"
  by (auto simp add: cooldown_tick_eq)

lemma cooldown_ticks_remaining:
  "0 \<le> cooldownRemaining s \<Longrightarrow>
     cooldownRemaining ((cooldown_tick ^^ n) s) = max 0 (cooldownRemaining s - int n)"
proof (induction n)
  case 0
  then show ?case by simp
next
  case (Suc n)
  then have "0 \<le> cooldownRemaining ((cooldown_tick ^^ n) s)" by simp
  then show ?case using Suc by (simp add: cooldown_tick_remaining)
qed

lemma cooldown_ticks_canTrigger:
  "0 \<le> cooldownRemaining s \<Longrightarrow>
     canTrigger ((cooldown_tick ^^ n) s) =
       (canTrigger s \<or> (0 < cooldownRemaining s \<and> cooldownRemaining s \<le> int n))"
proof (induction n)
  case 0
  then show ?case by auto
next
  case (Suc n)
  then show ?case
    by (auto simp: cooldown_tick_canTrigger cooldown_ticks_remaining)
qed

lemma cooldown_ticks_fields:
  "myActiveAlert ((cooldown_tick ^^ n) s) = myActiveAlert s
   \<and> alertStartTime ((cooldown_tick ^^ n) s) = alertStartTime s"
  by (induction n) (simp_all add: cooldown_tick_fields)

lemma start_time_upd [simp]:
  "start_time (s\<lparr>cooldownRemaining := c\<rparr>) = start_time s"
  "start_time (s\<lparr>canTrigger := b\<rparr>) = start_time s"
  "start_time (s\<lparr>alertTimeRemaining := r\<rparr>) = start_time s"
  by (simp_all add: start_time_def)

lemma alert_countdown_eq:
  "alert_countdown now s =
     (case (myActiveAlert s, start_time s) of
        (Some a, Some t) \<Rightarrow>
          if 1200 \<le> (now - t) div 1000
          then reset (s\<lparr>alertTimeRemaining := 0, myActiveAlert := None, alertStartTime := None,
                        currentAddress := []\<rparr>)
          else s\<lparr>alertTimeRemaining := 1200 - (now - t) div 1000\<rparr>
      | _ \<Rightarrow> s\<lparr>alertTimeRemaining := 0\<rparr>)"
  by (simp add: alert_countdown_def ALERT_DURATION_def Let_def max_def split: option.split)

lemma countdown_cooldown_commute:
  "alert_countdown now (cooldown_tick s) = cooldown_tick (alert_countdown now s)"
proof (cases "cooldownRemaining s \<le> 0")
  case True
  then have "cooldownRemaining (alert_countdown now s) \<le> 0"
    by (simp add: alert_countdown_eq reset_def split: option.split)
  with True show ?thesis by (simp add: cooldown_tick_def)
next
  case False
  then show ?thesis
    by (simp add: cooldown_tick_eq alert_countdown_eq reset_def split: option.split)
qed

text \<open>
  Claim C5. A press that sends the alert leaves the cooldown at 60 with \<open>canTrigger\<close> off.
  After \<open>n\<close> ticks of the cooldown timer the remaining time is \<open>max 0 (60 - n)\<close>: one less
  per tick and never negative; \<open>canTrigger\<close> is on exactly when the remaining time is 0,
  that is from the 60th tick on. The ticks leave the own alert and its start time alone,
  and a tick of the cooldown and a tick of the alert's countdown commute.
\<close>

theorem cooldown_after_trigger:
  assumes "handleEmergencyPress env s = (Alert_sent, s')"
  shows "cooldownRemaining s' = 60 \<and> \<not> canTrigger s'
    \<and> cooldownRemaining ((cooldown_tick ^^ n) s') = max 0 (60 - int n)
    \<and> canTrigger ((cooldown_tick ^^ n) s') = (cooldownRemaining ((cooldown_tick ^^ n) s') = 0)
    \<and> canTrigger ((cooldown_tick ^^ n) s') = (60 \<le> n)
    \<and> myActiveAlert ((cooldown_tick ^^ n) s') = myActiveAlert s'
    \<and> alertStartTime ((cooldown_tick ^^ n) s') = alertStartTime s'
    \<and> alert_countdown now (cooldown_tick t) = cooldown_tick (alert_countdown now t)"
proof -
  have c: "cooldownRemaining s' = 60" and t: "\<not> canTrigger s'"
    using assms by (auto simp: handleEmergencyPress_def split: if_splits option.splits)
  have r: "cooldownRemaining ((cooldown_tick ^^ n) s') = max 0 (60 - int n)"
    using cooldown_ticks_remaining [of s' n] c by simp
  have g: "canTrigger ((cooldown_tick ^^ n) s') = (60 \<le> n)"
    using cooldown_ticks_canTrigger [of s' n] c t by simp
  have z: "canTrigger ((cooldown_tick ^^ n) s') = (cooldownRemaining ((cooldown_tick ^^ n) s') = 0)"
    unfolding r g by auto
  show ?thesis
    using c t r g z cooldown_ticks_fields [of n s'] countdown_cooldown_commute [of now t]
    by blast
qed

lemma demo_press: "handleEmergencyPress demo_env home_init = (Alert_sent, demo_active)"
proof -
  have i: "\<not> isProcessing home_init" "Idle home_init"
    by (simp_all add: home_init_def Idle_def)
  have e: "hasPermission demo_env" "current_location demo_env = Some demo_location"
    "response demo_env = Some ''a1''"
    by (simp_all add: demo_env_def)
  have "fst (handleEmergencyPress demo_env home_init) = Alert_sent"
    by (simp add: press_sent [OF i e])
  then show ?thesis by (simp add: demo_active_def prod_eq_iff)
qed

lemma demo_active_alert:
  "myActiveAlert demo_active =
     Some \<lparr>latitude = latitude demo_location, longitude = longitude demo_location,
           alert_id = ''a1''\<rparr>
   \<and> alertStartTime demo_active = Some 5000"
  by (simp add: demo_active_def handleEmergencyPress_def home_init_def demo_env_def)

theorem cooldown_after_trigger_witness:
  "cooldownRemaining demo_active = 60 \<and> \<not> canTrigger demo_active
   \<and> cooldownRemaining ((cooldown_tick ^^ 1) demo_active) = 59
   \<and> cooldownRemaining ((cooldown_tick ^^ 59) demo_active) = 1
   \<and> \<not> canTrigger ((cooldown_tick ^^ 59) demo_active)
   \<and> cooldownRemaining ((cooldown_tick ^^ 60) demo_active) = 0
   \<and> canTrigger ((cooldown_tick ^^ 60) demo_active)
   \<and> cooldownRemaining ((cooldown_tick ^^ 75) demo_active) = 0"
  using cooldown_after_trigger [OF demo_press, of 1]
    cooldown_after_trigger [OF demo_press, of 59]
    cooldown_after_trigger [OF demo_press, of 60]
    cooldown_after_trigger [OF demo_press, of 75]
  by simp

lemma alert_countdown_running:
  assumes "myActiveAlert s = Some a" "alertStartTime s = Some t" "t \<noteq> 0" "now - t < 1200000"
  shows "alert_countdown now s = s\<lparr>alertTimeRemaining := 1200 - (now - t) div 1000\<rparr>"
proof -
  have "(now - t) div 1000 < 1200" using assms(4) by simp
  then show ?thesis using assms(1-3) by (simp add: alert_countdown_eq start_time_def)
qed

lemma alert_countdown_expired:
  assumes "myActiveAlert s = Some a" "alertStartTime s = Some t" "t \<noteq> 0" "1200000 \<le> now - t"
  shows "alert_countdown now s =
     reset (s\<lparr>alertTimeRemaining := 0, myActiveAlert := None, alertStartTime := None,
              currentAddress := []\<rparr>)"
proof -
  have "1200 \<le> (now - t) div 1000" using assms(4) by simp
  then show ?thesis using assms(1-3) by (simp add: alert_countdown_eq start_time_def)
qed

lemma alert_countdown_idle:
  "myActiveAlert s = None \<Longrightarrow> alert_countdown now s = s\<lparr>alertTimeRemaining := 0\<rparr>"
  by (simp add: alert_countdown_eq)

lemma alert_ticks_running:
  assumes "myActiveAlert s = Some a" "alertStartTime s = Some t" "t \<noteq> 0" "0 \<le> d" "d < 1000"
  shows "k < 1200 \<Longrightarrow>
     myActiveAlert (alert_ticks (t + d) k s) = Some a
     \<and> alertStartTime (alert_ticks (t + d) k s) = Some t"
proof (induction k)
  case 0
  then show ?case using assms by simp
next
  case (Suc k)
  let ?u = "alert_ticks (t + d) k s"
  have u: "myActiveAlert ?u = Some a" "alertStartTime ?u = Some t" using Suc by simp_all
  have "(t + d + 1000 * (int k + 1)) - t < 1200000" using Suc.prems assms(5) by simp
  from alert_countdown_running [OF u assms(3) this] show ?case
    by (simp add: u)
qed

lemma alert_ticks_expire:
  assumes "myActiveAlert s = Some a" "alertStartTime s = Some t" "t \<noteq> 0" "0 \<le> d" "d < 1000"
  shows "Idle (alert_ticks (t + d) 1200 s) \<and> alertStartTime (alert_ticks (t + d) 1200 s) = None"
proof -
  let ?u = "alert_ticks (t + d) 1199 s"
  have u: "myActiveAlert ?u = Some a" "alertStartTime ?u = Some t"
    using alert_ticks_running [OF assms, of 1199] by simp_all
  have e: "alert_ticks (t + d) 1200 s = alert_countdown (t + d + 1000 * (int 1199 + 1)) ?u"
    using alert_ticks.simps(2) [of "t + d" 1199 s] by simp
  have "1200000 \<le> (t + d + 1000 * (int 1199 + 1)) - t" using assms(4) by simp
  from alert_countdown_expired [OF u assms(3) this] show ?thesis
    unfolding e by (simp add: reset_def Idle_def)
qed

lemma alert_ticks_stay_idle:
  "Idle s \<Longrightarrow> Idle (alert_ticks t0 k s)"
proof (induction k)
  case 0
  then show ?case by simp
next
  case (Suc k)
  then have "Idle (alert_ticks t0 k s)" by simp
  then show ?case by (simp add: Idle_def alert_countdown_idle)
qed


lemma alert_ticks_idle_after:
  assumes "myActiveAlert s = Some a" "alertStartTime s = Some t" "t \<noteq> 0" "0 \<le> d" "d < 1000"
    and "1200 \<le> k"
  shows "Idle (alert_ticks (t + d) k s)"
  using assms(6)
proof (induction k rule: dec_induct)
  case base
  show ?case using alert_ticks_expire [OF assms(1-5)] by simp
next
  case (step n)
  then show ?case by (simp add: Idle_def alert_countdown_idle)
qed

text \<open>
  Claim C6. For an active alert started at \<open>t\<close>, a tick at the time \<open>now\<close> sets the remaining
  time to \<open>max 0 (1200 - elapsed seconds)\<close>; before 1200 s have passed the alert stays as
  it is, from then on the tick leaves the device idle, with the alert, the start time,
  the address, \<open>canTrigger\<close> and the cooldown cleared. With the timer set less than a
  second after the start, the alert is active after each of the first 1199 ticks and the
  device is idle from the 1200th tick on.
\<close>

theorem own_alert_expires:
  assumes "myActiveAlert s = Some a" and "alertStartTime s = Some t" and "t \<noteq> 0"
  shows "alertTimeRemaining (alert_countdown now s) = max 0 (ALERT_DURATION - (now - t) div 1000)
    \<and> ALERT_DURATION = 1200
    \<and> (now - t < 1200000 \<longrightarrow>
          alert_countdown now s = s\<lparr>alertTimeRemaining := 1200 - (now - t) div 1000\<rparr>
          \<and> 0 < alertTimeRemaining (alert_countdown now s)
          \<and> Active (alert_countdown now s))
    \<and> (1200000 \<le> now - t \<longrightarrow>
          Idle (alert_countdown now s)
          \<and> alertStartTime (alert_countdown now s) = None
          \<and> currentAddress (alert_countdown now s) = []
          \<and> alertTimeRemaining (alert_countdown now s) = 0)
    \<and> (0 \<le> d \<and> d < 1000 \<longrightarrow>
          (k < 1200 \<longrightarrow> Active (alert_ticks (t + d) k s))
          \<and> (1200 \<le> k \<longrightarrow> Idle (alert_ticks (t + d) k s)))"
proof (intro conjI impI)
  show "alertTimeRemaining (alert_countdown now s) = max 0 (ALERT_DURATION - (now - t) div 1000)"
    using assms
    by (simp add: alert_countdown_def start_time_def Let_def reset_def)
  show "ALERT_DURATION = 1200" by (simp add: ALERT_DURATION_def)
next
  assume b: "now - t < 1200000"
  then have p: "(now - t) div 1000 < 1200" by simp
  note e = alert_countdown_running [OF assms b]
  show "alert_countdown now s = s\<lparr>alertTimeRemaining := 1200 - (now - t) div 1000\<rparr>"
    by (rule e)
  show "0 < alertTimeRemaining (alert_countdown now s)"
    using p by (simp add: e)
  show "Active (alert_countdown now s)"
    by (simp add: e Active_def assms(1))
next
  assume b: "1200000 \<le> now - t"
  note e = alert_countdown_expired [OF assms b]
  show "Idle (alert_countdown now s)" by (simp add: e reset_def Idle_def)
  show "alertStartTime (alert_countdown now s) = None" by (simp add: e reset_def)
  show "currentAddress (alert_countdown now s) = []" by (simp add: e reset_def)
  show "alertTimeRemaining (alert_countdown now s) = 0" by (simp add: e reset_def)
next
  assume d: "0 \<le> d \<and> d < 1000" and k: "k < 1200"
  then show "Active (alert_ticks (t + d) k s)"
    using alert_ticks_running [OF assms, of d k] by (simp add: Active_def)
next
  assume d: "0 \<le> d \<and> d < 1000" and k: "1200 \<le> k"
  then show "Idle (alert_ticks (t + d) k s)"
    using alert_ticks_idle_after [OF assms, of d k] by simp
qed

theorem own_alert_expires_witness:
  "alertTimeRemaining (alert_countdown 65000 demo_active) = 1140
   \<and> Active (alert_countdown 1204999 demo_active)
   \<and> Idle (alert_countdown 1205000 demo_active)
   \<and> alertStartTime (alert_countdown 1205000 demo_active) = None
   \<and> Active (alert_ticks 5300 1199 demo_active)
   \<and> Idle (alert_ticks 5300 1200 demo_active)"
proof -
  note a = demo_active_alert [THEN conjunct1] and t = demo_active_alert [THEN conjunct2]
  have z: "(5000::int) \<noteq> 0" by simp
  have 1: "alertTimeRemaining (alert_countdown 65000 demo_active) = 1140"
    using own_alert_expires [OF a t z, of 65000] by (simp add: ALERT_DURATION_def)
  have h2: "(1204999::int) - 5000 < 1200000" by simp
  have 2: "Active (alert_countdown 1204999 demo_active)"
    using own_alert_expires [OF a t z, of 1204999] h2 by blast
  have h3: "(1200000::int) \<le> 1205000 - 5000" by simp
  have 3: "Idle (alert_countdown 1205000 demo_active)
      \<and> alertStartTime (alert_countdown 1205000 demo_active) = None"
    using own_alert_expires [OF a t z, of 1205000] h3 by blast
  have h4: "(0::int) \<le> 300 \<and> (300::int) < 1000" by simp
  have k4: "(1199::nat) < 1200" "(1200::nat) \<le> 1200" by simp_all
  have s4: "(5000::int) + 300 = 5300" by simp
  have 4: "Active (alert_ticks (5000 + 300) 1199 demo_active)
      \<and> Idle (alert_ticks (5000 + 300) 1200 demo_active)"
    using own_alert_expires [OF a t z, of _ 300 1199]
      own_alert_expires [OF a t z, of _ 300 1200] h4 k4
    by blast
  show ?thesis using 1 2 3 4 unfolding s4 by blast
qed


section \<open>The realtime channel after a reconnection\<close>

lemma subscribeToAlert_connected:
  "socket svc = Some so \<Longrightarrow> connected so \<Longrightarrow> sendBuffer so = [] \<Longrightarrow>
     socket (subscribeToAlert a svc) =
       Some (so\<lparr>rooms := insert (AlertRoom a) (rooms so), sent := sent so @ [AlertRoom a]\<rparr>)
     \<and> deviceId (subscribeToAlert a svc) = deviceId svc"
  by (simp add: subscribeToAlert_def emit_join_def)

lemma subscribe_all_connected:
  "socket svc = Some so \<Longrightarrow> connected so \<Longrightarrow> sendBuffer so = [] \<Longrightarrow>
     socket (subscribe_all as svc) =
       Some (so\<lparr>rooms := AlertRoom ` set as \<union> rooms so, sent := sent so @ map AlertRoom as\<rparr>)
     \<and> deviceId (subscribe_all as svc) = deviceId svc"
proof (induction as arbitrary: svc so)
  case Nil
  then show ?case by simp
next
  case (Cons a as)
  let ?so = "so\<lparr>rooms := insert (AlertRoom a) (rooms so), sent := sent so @ [AlertRoom a]\<rparr>"
  note h = subscribeToAlert_connected [OF Cons.prems, of a]
  have c: "connected ?so" "sendBuffer ?so = []" using Cons.prems by simp_all
  from Cons.IH [OF h [THEN conjunct1] c] h [THEN conjunct2]
  show ?case by simp
qed

lemma connected_session_start:
  "socket (transport_up (connect d new_service)) =
     Some \<lparr>connected = True, rooms = {DeviceRoom d}, sendBuffer = [], sent = [DeviceRoom d]\<rparr>
   \<and> deviceId (transport_up (connect d new_service)) = Some d"
  by (simp add: transport_up_def connect_def new_service_def on_connect_def joinDeviceRoom_def
      emit_join_def)

lemma session_socket:
  "socket (session as) =
     Some \<lparr>connected = True, rooms = insert (DeviceRoom ''dev1'') (AlertRoom ` set as),
           sendBuffer = [], sent = DeviceRoom ''dev1'' # map AlertRoom as\<rparr>
   \<and> deviceId (session as) = Some ''dev1''"
proof -
  let ?so = "\<lparr>connected = True, rooms = {DeviceRoom ''dev1''}, sendBuffer = [],
              sent = [DeviceRoom ''dev1'']\<rparr>"
  note c = connected_session_start [of "''dev1''"]
  have so: "connected ?so" "sendBuffer ?so = []" by simp_all
  from subscribe_all_connected [OF c [THEN conjunct1] so, of as] c [THEN conjunct2]
  show ?thesis unfolding session_def by simp
qed

lemma session_rooms: "joined_rooms (session as) = insert (DeviceRoom ''dev1'') (AlertRoom ` set as)"
  by (simp add: joined_rooms_def session_socket)

lemma session_sent: "sent_messages (session as) = DeviceRoom ''dev1'' # map AlertRoom as"
  by (simp add: sent_messages_def session_socket)

lemma reconnected_rooms:
  assumes "socket svc = Some so" and "connected so" and "sendBuffer so = []"
    and "deviceId svc = Some d"
  shows "joined_rooms (reconnected (transport_down r svc)) = {DeviceRoom d}
    \<and> sent_messages (reconnected (transport_down r svc)) = sent so @ [DeviceRoom d]
    \<and> joined_rooms (on_reconnect (reconnected (transport_down r svc))) = {DeviceRoom d}"
  using assms
  by (simp add: reconnected_def transport_down_def transport_up_def on_disconnect_def
      on_connect_def on_reconnect_def joinDeviceRoom_def emit_join_def joined_rooms_def
      sent_messages_def)

lemma session_reconnected:
  "joined_rooms (reconnected (transport_down r (session as))) = {DeviceRoom ''dev1''}
   \<and> sent_messages (reconnected (transport_down r (session as))) =
       sent_messages (session as) @ [DeviceRoom ''dev1'']
   \<and> joined_rooms (on_reconnect (reconnected (transport_down r (session as)))) =
       {DeviceRoom ''dev1''}"
proof -
  let ?so = "\<lparr>connected = True, rooms = insert (DeviceRoom ''dev1'') (AlertRoom ` set as),
           sendBuffer = [], sent = DeviceRoom ''dev1'' # map AlertRoom as\<rparr>"
  have so: "connected ?so" "sendBuffer ?so = []" by simp_all
  from reconnected_rooms [OF session_socket [THEN conjunct1] so session_socket [THEN conjunct2]]
  show ?thesis by (simp add: session_sent)
qed

text \<open>
  Claim C1 fails on the code. With one alert subscribed, the device room and the alert
  room are joined before the connection is lost; after the reconnection only the device
  room is joined, and the only message the client has sent since is the
  \<open>join_device_room\<close> of the \<open>connect\<close> listener; the \<open>reconnect\<close> listener, were it to run,
  would join the device room again and nothing else. (For any list of subscribed alerts
  the rooms after a reconnection are the device room alone: \<open>session_rooms\<close>,
  \<open>session_reconnected\<close>.)
\<close>

theorem reconnect_rejoins_device_room_only:
  "joined_rooms (session [''a1'']) = {DeviceRoom ''dev1'', AlertRoom ''a1''}
   \<and> joined_rooms (reconnected (transport_down ''transport close'' (session [''a1'']))) =
       {DeviceRoom ''dev1''}
   \<and> joined_rooms (reconnected (transport_down ''transport close'' (session [''a1'']))) \<noteq>
       joined_rooms (session [''a1''])
   \<and> sent_messages (reconnected (transport_down ''transport close'' (session [''a1'']))) =
       sent_messages (session [''a1'']) @ [DeviceRoom ''dev1'']
   \<and> joined_rooms (on_reconnect (reconnected (transport_down ''transport close'' (session [''a1''])))) =
       {DeviceRoom ''dev1''}"
  by (simp add: session_rooms session_reconnected)

section \<open>The surfaced alert\<close>

lemma alert_id_of_data: "alert_id (alert_of_data d) = data_alert_id d"
  by (simp add: alert_of_data_def)

lemma onAlertReceived_incoming: "incomingAlert (onAlertReceived d s) = Some (alert_of_data d)"
  by (simp add: onAlertReceived_def)

lemma updateAndFetchData_alerts_keeps:
  "incomingAlert seen = Some a \<Longrightarrow>
     incomingAlert (updateAndFetchData_alerts seen alerts s) = incomingAlert s"
  by (simp add: updateAndFetchData_alerts_def Let_def split: list.split)

lemma updateAndFetchData_alerts_shows:
  "myActiveAlert seen = None \<Longrightarrow> incomingAlert seen = None \<Longrightarrow>
     incomingAlert (updateAndFetchData_alerts seen (a # alerts) s) = Some a"
  by (simp add: updateAndFetchData_alerts_def Let_def)

text \<open>
  Claim C2 fails on the code. With the alert \<open>b2\<close> surfaced, an \<open>alert_received\<close> for the closer
  alert \<open>c3\<close> surfaces \<open>c3\<close> in its place, and a repeat of \<open>b2\<close> with another distance
  replaces the surfaced record. The periodic update has the guard: created by a render
  that shows \<open>b2\<close> and given the same closer alert, it leaves \<open>b2\<close> surfaced; created by the
  render before \<open>b2\<close> was shown, it surfaces \<open>c3\<close>. After a dismiss, an \<open>alert_received\<close>
  for \<open>b2\<close> surfaces it again.
\<close>

theorem onAlertReceived_replaces_surfaced:
  "map_option alert_id (incomingAlert (onAlertReceived demo_far home_init)) = Some ''b2''
   \<and> map_option alert_id (incomingAlert (onAlertReceived demo_near (onAlertReceived demo_far home_init)))
       = Some ''c3''
   \<and> incomingAlert (onAlertReceived (demo_far\<lparr>data_distance := 300\<rparr>) (onAlertReceived demo_far home_init))
       \<noteq> incomingAlert (onAlertReceived demo_far home_init)
   \<and> map_option alert_id
        (incomingAlert (updateAndFetchData_alerts (onAlertReceived demo_far home_init)
           [alert_of_data demo_near] (onAlertReceived demo_far home_init))) = Some ''b2''
   \<and> map_option alert_id
        (incomingAlert (updateAndFetchData_alerts home_init
           [alert_of_data demo_near] (onAlertReceived demo_far home_init))) = Some ''c3''
   \<and> incomingAlert (handleDismissAlert (onAlertReceived demo_far home_init)) = None
   \<and> incomingAlert (onAlertReceived demo_far (handleDismissAlert (onAlertReceived demo_far home_init)))
       = incomingAlert (onAlertReceived demo_far home_init)"
proof -
  have 1: "alert_id (alert_of_data demo_far) = ''b2''" "alert_id (alert_of_data demo_near) = ''c3''"
    by (simp_all add: alert_id_of_data demo_far_def demo_near_def)
  have 2: "alert_of_data (demo_far\<lparr>data_distance := 300\<rparr>) \<noteq> alert_of_data demo_far"
    by (simp add: alert_of_data_def demo_far_def)
  have 3: "incomingAlert (updateAndFetchData_alerts (onAlertReceived demo_far home_init)
           [alert_of_data demo_near] (onAlertReceived demo_far home_init)) =
        Some (alert_of_data demo_far)"
    using updateAndFetchData_alerts_keeps [OF onAlertReceived_incoming]
    by (simp add: onAlertReceived_incoming)
  have n: "myActiveAlert home_init = None" "incomingAlert home_init = None"
    by (simp_all add: home_init_def)
  have 4: "incomingAlert (updateAndFetchData_alerts home_init
           [alert_of_data demo_near] (onAlertReceived demo_far home_init)) =
        Some (alert_of_data demo_near)"
    by (rule updateAndFetchData_alerts_shows [OF n])
  show ?thesis
    by (simp add: onAlertReceived_incoming 1 2 3 4 handleDismissAlert_def)
qed

section \<open>The alert burst\<close>

lemma playAlertBurst_playing:
  "isPlaying s \<Longrightarrow> playAlertBurst False s = s\<lparr>vibrations := vibrations s + 1\<rparr>"
  by (simp add: playAlertBurst_def playEmergencySoundAsync_def)

lemma playAlertBurst_silent:
  "\<not> isPlaying s \<Longrightarrow>
     playAlertBurst False s =
       s\<lparr>vibrations := vibrations s + 1, isPlaying := True, loading := loading s + 1\<rparr>"
  by (simp add: playAlertBurst_def playEmergencySoundAsync_def)

lemma one_sound_init: "one_sound sound_init"
  by (simp add: one_sound_def sound_init_def)

lemma one_sound_step:
  assumes "e \<noteq> Stop" and "one_sound s"
  shows "one_sound (sound_step web e s)"
proof (cases e)
  case Burst
  then show ?thesis using assms(2)
    by (auto simp: one_sound_def playAlertBurst_def playEmergencySoundAsync_def)
next
  case (Created ok)
  then show ?thesis using assms(2)
    by (auto simp: one_sound_def sound_created_def)
next
  case (Failed ok)
  then show ?thesis using assms(2)
    by (auto simp: one_sound_def sound_failed_def)
next
  case (Timer ok)
  then show ?thesis using assms(2)
    by (auto simp: one_sound_def cleanup_timer_def)
next
  case Stop
  then show ?thesis using assms(1) by simp
qed

lemma one_sound_run:
  "Stop \<notin> set es \<Longrightarrow> one_sound s \<Longrightarrow> one_sound (sound_run web es s)"
proof (induction es arbitrary: s)
  case Nil
  then show ?case by simp
next
  case (Cons e es)
  then have "e \<noteq> Stop" "Stop \<notin> set es" by auto
  with Cons show ?case by (simp add: one_sound_step)
qed

lemma vibrations_step:
  "vibrations (sound_step False e s) = vibrations s + (if e = Burst then 1 else 0)"
  by (cases e)
    (simp_all add: playAlertBurst_def playEmergencySoundAsync_def sound_created_def
      sound_failed_def cleanup_timer_def stopEmergencyAlert_def)

lemma vibrations_run:
  "vibrations (sound_run False es s) = vibrations s + count_list es Burst"
  by (induction es arbitrary: s) (simp_all add: vibrations_step)

text \<open>
  After \<open>stopEmergencyAlert\<close> the guard is open while the first sound is still being
  created: a further call starts a second one beside it.
\<close>

lemma stop_opens_guard:
  "loading (sound_run False [Burst, Stop, Burst] sound_init) = 2"
  by (simp add: playAlertBurst_def playEmergencySoundAsync_def stopEmergencyAlert_def
      sound_init_def)

text \<open>
  Claim C7 as it is stated fails: the second of two calls is not dropped, it vibrates
  again; and the call arms no cleanup timer, the timer waits for the sound to be created.
\<close>

theorem playAlertBurst_counterexample:
  "isPlaying (playAlertBurst False sound_init)
   \<and> playAlertBurst False (playAlertBurst False sound_init) \<noteq> playAlertBurst False sound_init
   \<and> vibrations (playAlertBurst False (playAlertBurst False sound_init)) = 2
   \<and> timers (playAlertBurst False (playAlertBurst False sound_init)) = 0"
  by (simp add: playAlertBurst_def playEmergencySoundAsync_def sound_init_def)

text \<open>
  Claim C7, amended. Let \<open>s\<close> be the state off the web after any events since the start
  of the module among which \<open>stopEmergencyAlert\<close> is not. Every call has vibrated. At most
  one sound is in flight, and \<open>isPlaying\<close> is set exactly when one is. A call while
  \<open>isPlaying\<close> is set vibrates and does nothing else: no second sound is started. A call
  while it is not set sets it and starts the one sound. A sound that has been created
  arms its cleanup timer and leaves \<open>isPlaying\<close> set; a creation that fails clears
  \<open>isPlaying\<close> at once. The timer that fires clears \<open>isPlaying\<close>, and \<open>soundObject\<close> when
  stopping and unloading succeed; a further call then starts the next sound.
\<close>

theorem playAlertBurst_one_sound:
  assumes "Stop \<notin> set es" and "s = sound_run False es sound_init"
  shows "vibrations s = count_list es Burst
    \<and> loading s + timers s \<le> 1
    \<and> isPlaying s = (loading s + timers s = 1)
    \<and> (isPlaying s \<longrightarrow> playAlertBurst False s = s\<lparr>vibrations := vibrations s + 1\<rparr>)
    \<and> (\<not> isPlaying s \<longrightarrow>
         playAlertBurst False s = s\<lparr>vibrations := vibrations s + 1, isPlaying := True, loading := 1\<rparr>)
    \<and> loading (playAlertBurst False (playAlertBurst False s))
        + timers (playAlertBurst False (playAlertBurst False s)) = 1
    \<and> (0 < loading s \<longrightarrow>
         timers (sound_created init_ok s) = 1 \<and> loading (sound_created init_ok s) = 0
         \<and> isPlaying (sound_created init_ok s)
         \<and> \<not> isPlaying (sound_failed init_ok s) \<and> timers (sound_failed init_ok s) = 0)
    \<and> (0 < timers s \<longrightarrow>
         \<not> isPlaying (cleanup_timer cleanup_ok s)
         \<and> timers (cleanup_timer cleanup_ok s) = 0
         \<and> (cleanup_ok \<longrightarrow> soundObject (cleanup_timer cleanup_ok s) = None)
         \<and> isPlaying (playAlertBurst False (cleanup_timer cleanup_ok s))
         \<and> loading (playAlertBurst False (cleanup_timer cleanup_ok s)) = 1)"
proof -
  have o: "one_sound s"
    unfolding assms(2) by (rule one_sound_run [OF assms(1) one_sound_init])
  then have le: "loading s + timers s \<le> 1" and p: "isPlaying s = (loading s + timers s = 1)"
    by (simp_all add: one_sound_def)
  have v: "vibrations s = count_list es Burst"
    unfolding assms(2) by (simp add: vibrations_run sound_init_def)
  have a: "isPlaying s \<longrightarrow> playAlertBurst False s = s\<lparr>vibrations := vibrations s + 1\<rparr>"
    by (simp add: playAlertBurst_playing)
  have b: "\<not> isPlaying s \<longrightarrow>
         playAlertBurst False s = s\<lparr>vibrations := vibrations s + 1, isPlaying := True, loading := 1\<rparr>"
    using le p by (auto simp: playAlertBurst_silent)
  have o1: "one_sound (sound_step False Burst (sound_step False Burst s))"
    by (intro one_sound_step o) simp_all
  have p2: "isPlaying (playAlertBurst False (playAlertBurst False s))"
    by (simp add: playAlertBurst_def playEmergencySoundAsync_def)
  have c: "loading (playAlertBurst False (playAlertBurst False s))
        + timers (playAlertBurst False (playAlertBurst False s)) = 1"
    using o1 p2 by (simp add: one_sound_def)
  have d: "0 < loading s \<longrightarrow>
         timers (sound_created init_ok s) = 1 \<and> loading (sound_created init_ok s) = 0
         \<and> isPlaying (sound_created init_ok s)
         \<and> \<not> isPlaying (sound_failed init_ok s) \<and> timers (sound_failed init_ok s) = 0"
    using le p by (auto simp: sound_created_def sound_failed_def)
  have e: "0 < timers s \<longrightarrow>
         \<not> isPlaying (cleanup_timer cleanup_ok s)
         \<and> timers (cleanup_timer cleanup_ok s) = 0
         \<and> (cleanup_ok \<longrightarrow> soundObject (cleanup_timer cleanup_ok s) = None)
         \<and> isPlaying (playAlertBurst False (cleanup_timer cleanup_ok s))
         \<and> loading (playAlertBurst False (cleanup_timer cleanup_ok s)) = 1"
    using le p
    by (auto simp: cleanup_timer_def playAlertBurst_def playEmergencySoundAsync_def)
  show ?thesis using v le p a b c d e by blast
qed

text \<open>
  Two calls, the sound created, its timer fired, a third call: three vibrations; one
  sound in flight after the two calls, none after the timer, one after the third call.
\<close>

theorem playAlertBurst_one_sound_witness:
  "vibrations (sound_run False [Burst, Burst] sound_init) = 2
   \<and> loading (sound_run False [Burst, Burst] sound_init)
       + timers (sound_run False [Burst, Burst] sound_init) = 1
   \<and> isPlaying (sound_run False [Burst, Burst] sound_init)
   \<and> timers (sound_created True (sound_run False [Burst, Burst] sound_init)) = 1
   \<and> \<not> isPlaying (sound_run False [Burst, Burst, Created True, Timer True] sound_init)
   \<and> soundObject (sound_run False [Burst, Burst, Created True, Timer True] sound_init) = None
   \<and> loading (sound_run False [Burst, Burst, Created True, Timer True, Burst] sound_init) = 1
   \<and> vibrations (sound_run False [Burst, Burst, Created True, Timer True, Burst] sound_init) = 3"
proof -
  let ?s2 = "sound_run False [Burst, Burst] sound_init"
  let ?s3 = "sound_run False [Burst, Burst, Created True] sound_init"
  let ?s4 = "sound_run False [Burst, Burst, Created True, Timer True] sound_init"
  let ?s5 = "sound_run False [Burst, Burst, Created True, Timer True, Burst] sound_init"
  have n2: "Stop \<notin> set [Burst, Burst]" by simp
  have n3: "Stop \<notin> set [Burst, Burst, Created True]" by simp
  have n5: "Stop \<notin> set [Burst, Burst, Created True, Timer True, Burst]" by simp
  note t2 = playAlertBurst_one_sound [OF n2 refl, of True True]
  note t3 = playAlertBurst_one_sound [OF n3 refl, of True True]
  note t5 = playAlertBurst_one_sound [OF n5 refl, of True True]
  have e3: "?s3 = sound_created True ?s2" by simp
  have e4: "?s4 = cleanup_timer True ?s3" by simp
  have 1: "vibrations ?s2 = 2" using t2 by simp
  have "isPlaying (playAlertBurst False (playAlertBurst False sound_init))"
    by (simp add: playAlertBurst_def playEmergencySoundAsync_def)
  then have 3: "isPlaying ?s2" by simp
  have 2: "loading ?s2 + timers ?s2 = 1" using t2 3 by blast
  have l2: "0 < loading ?s2"
    by (simp add: playAlertBurst_def playEmergencySoundAsync_def sound_init_def)
  have 4: "timers (sound_created True ?s2) = 1" using t2 l2 by blast
  then have l3: "0 < timers ?s3" unfolding e3 by simp
  have 5: "\<not> isPlaying ?s4" unfolding e4 using t3 l3 by blast
  have 6: "soundObject ?s4 = None" unfolding e4 using t3 l3 by blast
  have 8: "vibrations ?s5 = 3" using t5 by simp
  have 7: "loading ?s5 = 1"
    using t3 l3 by (simp flip: e4)
  show ?thesis using 1 2 3 4 5 6 7 8 by blast
qed

end
